theory Spec2Isabelle
  imports
    Complex_Main
    "HOL-Library.AList"
    "HOL-Library.Multiset"
    "HOL-Library.Char_ord"
    "HOL-Library.List_Lexorder"
    "HOL-Library.Product_Lexorder"
begin

section \<open>Data model of app.py\<close>

text \<open>
  The response dictionaries \<^verbatim>\<open>{'name': ..., 'answer': ..., 'correct': ...}\<close> that
  \<^verbatim>\<open>page_student\<close> appends to \<^verbatim>\<open>quiz.responses[qid]\<close>. The three keys are always
  present, so the dictionary is a record; the fields carry the prefix \<open>r_\<close> because
  \<open>correct\<close> is also a field of \<^verbatim>\<open>Question\<close>.
\<close>

record Response =
  r_name :: string
  r_answer :: string
  r_correct :: bool

text \<open>
  The dataclass \<^verbatim>\<open>Question\<close>. Its field \<^verbatim>\<open>text\<close> is called \<open>qtext\<close> here (the name of
  the widget variable it is filled from). Python integers are unbounded: \<open>int\<close>.
\<close>

record Question =
  qid :: int
  qtext :: string
  A :: string
  B :: string
  C :: string
  D :: string
  correct :: string

text \<open>
  The dataclass \<^verbatim>\<open>Quiz\<close>. A Python \<^verbatim>\<open>dict\<close> keeps its keys in insertion order and
  \<^verbatim>\<open>scores.items()\<close> is read in that order, so both dictionaries are association
  lists. \<^verbatim>\<open>started_at\<close> is a Python float holding \<^verbatim>\<open>time.time()\<close>; it is a real number
  here, so rounding of floating-point arithmetic is not part of the model.
\<close>

record Quiz =
  title :: string
  time_per_q :: int
  questions :: "Question list"
  participants :: "string list"
  responses :: "(int \<times> Response list) list"
  scores :: "(string \<times> int) list"
  started :: bool
  current_q :: int
  reveal :: bool
  started_at :: real

text \<open>\<^verbatim>\<open>Quiz()\<close>: every field at its default.\<close>

definition new_Quiz :: Quiz where
  "new_Quiz = \<lparr>title = [], time_per_q = 20, questions = [], participants = [],
     responses = [], scores = [], started = False, current_q = 0, reveal = False,
     started_at = 0\<rparr>"

subsection \<open>Python dictionary operations\<close>

text \<open>\<^verbatim>\<open>d.get(k, dflt)\<close>.\<close>

definition dict_get :: "('k \<times> 'v) list \<Rightarrow> 'k \<Rightarrow> 'v \<Rightarrow> 'v" where
  "dict_get d k dflt = (case map_of d k of None \<Rightarrow> dflt | Some v \<Rightarrow> v)"

text \<open>\<^verbatim>\<open>d[k] = v\<close>: replaces the value in place, or appends a new key.\<close>

definition dict_set :: "('k \<times> 'v) list \<Rightarrow> 'k \<Rightarrow> 'v \<Rightarrow> ('k \<times> 'v) list" where
  "dict_set d k v = AList.update k v d"

text \<open>\<^verbatim>\<open>d.setdefault(k, v)\<close>, for its effect on \<open>d\<close>.\<close>

definition dict_setdefault :: "('k \<times> 'v) list \<Rightarrow> 'k \<Rightarrow> 'v \<Rightarrow> ('k \<times> 'v) list" where
  "dict_setdefault d k v = (case map_of d k of None \<Rightarrow> d @ [(k, v)] | Some _ \<Rightarrow> d)"

text \<open>\<^verbatim>\<open>k in d\<close>.\<close>

definition dict_mem :: "'k \<Rightarrow> ('k \<times> 'v) list \<Rightarrow> bool" where
  "dict_mem k d = (map_of d k \<noteq> None)"

section \<open>Outcomes the pages report\<close>

text \<open>
  The code has no exception classes of its own. What a page shows instead of applying
  a command is an error value here:
  \<^item> \<open>IncompleteQuestion\<close>: \<^verbatim>\<open>st.error("Completa todas las opciones")\<close>;
  \<^item> \<open>MissingPinOrName\<close>: \<^verbatim>\<open>st.error("Ingresa PIN y nombre")\<close>;
  \<^item> \<open>NotStarted\<close>: \<^verbatim>\<open>st.info("Esperando a que el docente inicie")\<close> and return;
  \<^item> \<open>StopIteration\<close>: \<^verbatim>\<open>next(q for q in quiz.questions if q.qid == quiz.current_q)\<close>
    finds no question and raises;
  \<^item> \<open>AlreadyAnswered\<close>: the pill \<^verbatim>\<open>"Respuesta enviada"\<close> replaces the form;
  \<^item> \<open>NoChoice\<close>: \<^verbatim>\<open>st.warning("Selecciona una opcion")\<close>.
\<close>

datatype error =
  IncompleteQuestion | MissingPinOrName | NotStarted | StopIteration
  | AlreadyAnswered | NoChoice

section \<open>The four options\<close>

text \<open>
  Two widgets offer a fixed list of four entries and return the entry selected: the
  select box \<^verbatim>\<open>st.selectbox("Respuesta correcta", ['A','B','C','D'])\<close> of line 110 and
  the radio widget of the student page. \<open>option_key\<close> is the position selected,
  \<open>key_letter\<close> the letter at that position.
\<close>

datatype option_key = OptA | OptB | OptC | OptD

fun key_letter :: "option_key \<Rightarrow> string" where
  "key_letter OptA = ''A''"
| "key_letter OptB = ''B''"
| "key_letter OptC = ''C''"
| "key_letter OptD = ''D''"

section \<open>Teacher commands\<close>

text \<open>
  Every function below acts on the \<^verbatim>\<open>Quiz\<close> that \<^verbatim>\<open>mgr.get(pin)\<close> returned and hands
  back the value that \<^verbatim>\<open>mgr.update(pin, quiz)\<close> stores. \<^verbatim>\<open>time.time()\<close> is the
  parameter \<open>now\<close>.
\<close>

text \<open>
  \<^verbatim>\<open>page_teacher\<close>, lines 105-118, the button "Agregar pregunta" with the contents
  of the five text widgets and the selection \<open>k\<close> of the select box.
  \<^verbatim>\<open>all([qtext, A, B, C, D])\<close> holds when none of the five strings is empty.
\<close>

definition add_question ::
  "string \<Rightarrow> string \<Rightarrow> string \<Rightarrow> string \<Rightarrow> string \<Rightarrow> option_key \<Rightarrow> Quiz \<Rightarrow> error + Quiz" where
  "add_question qt a b c d k quiz =
     (if qt \<noteq> [] \<and> a \<noteq> [] \<and> b \<noteq> [] \<and> c \<noteq> [] \<and> d \<noteq> []
      then Inr (quiz\<lparr>questions := questions quiz @
             [\<lparr>qid = (if questions quiz \<noteq> [] then qid (last (questions quiz)) + 1 else 1),
               qtext = qt, A = a, B = b, C = c, D = d, correct = key_letter k\<rparr>]\<rparr>)
      else Inl IncompleteQuestion)"

text \<open>\<^verbatim>\<open>page_teacher\<close>, lines 143-151, the button "Borrar todas".\<close>

definition clear_quiz :: "Quiz \<Rightarrow> Quiz" where
  "clear_quiz quiz = quiz\<lparr>questions := [], responses := [], scores := [],
     started := False, current_q := 0, reveal := False, started_at := 0\<rparr>"

text \<open>\<^verbatim>\<open>page_teacher\<close>, lines 99-101: the title and the seconds per question.\<close>

definition configure :: "string \<Rightarrow> int \<Rightarrow> Quiz \<Rightarrow> Quiz" where
  "configure t secs quiz = quiz\<lparr>title := t, time_per_q := secs\<rparr>"

text \<open>\<^verbatim>\<open>start_quiz\<close>, lines 221-230.\<close>

definition start_quiz :: "real \<Rightarrow> Quiz \<Rightarrow> Quiz" where
  "start_quiz now quiz =
     (if questions quiz = [] then quiz
      else quiz\<lparr>started := True, current_q := 1, reveal := False, started_at := now,
             responses := dict_set (responses quiz) 1 []\<rparr>)"

text \<open>\<^verbatim>\<open>next_q\<close>, lines 233-240.\<close>

definition next_q :: "real \<Rightarrow> Quiz \<Rightarrow> Quiz" where
  "next_q now quiz =
     (if current_q quiz < int (length (questions quiz))
      then quiz\<lparr>current_q := current_q quiz + 1, reveal := False, started_at := now,
             responses := dict_setdefault (responses quiz) (current_q quiz + 1) []\<rparr>
      else quiz)"

text \<open>\<^verbatim>\<open>prev_q\<close>, lines 243-249.\<close>

definition prev_q :: "real \<Rightarrow> Quiz \<Rightarrow> Quiz" where
  "prev_q now quiz =
     (if current_q quiz > 1
      then quiz\<lparr>current_q := current_q quiz - 1, reveal := False, started_at := now\<rparr>
      else quiz)"

text \<open>\<^verbatim>\<open>toggle_reveal\<close>, lines 252-256.\<close>

definition toggle_reveal :: "Quiz \<Rightarrow> Quiz" where
  "toggle_reveal quiz = quiz\<lparr>reveal := \<not> reveal quiz\<rparr>"

text \<open>\<^verbatim>\<open>stop_quiz\<close>, lines 259-266.\<close>

definition stop_quiz :: "Quiz \<Rightarrow> Quiz" where
  "stop_quiz quiz = quiz\<lparr>started := False, current_q := 0, reveal := False, started_at := 0\<rparr>"

section \<open>Student commands\<close>

text \<open>
  \<^verbatim>\<open>page_student\<close>, lines 279-293, the button "Unirme", for a PIN that is not empty
  and that \<^verbatim>\<open>mgr.get\<close> finds.
\<close>

definition join_quiz :: "string \<Rightarrow> Quiz \<Rightarrow> error + Quiz" where
  "join_quiz nm quiz =
     (if nm = [] then Inl MissingPinOrName
      else if nm \<notin> set (participants quiz)
      then Inr (quiz\<lparr>participants := participants quiz @ [nm],
                    scores := dict_setdefault (scores quiz) nm 0\<rparr>)
      else Inr quiz)"

text \<open>
  The radio widget of lines 321-323 offers the four labels \<^verbatim>\<open>f"A) {qrow.A}"\<close>, ...,
  \<^verbatim>\<open>f"D) {qrow.D}"\<close> and returns the selected label, or \<^verbatim>\<open>None\<close> (\<^verbatim>\<open>index=None\<close>)
  when nothing is selected. The \<open>option_key\<close> names the position selected.
\<close>

fun radio_label :: "Question \<Rightarrow> option_key \<Rightarrow> string" where
  "radio_label qrow OptA = ''A) '' @ A qrow"
| "radio_label qrow OptB = ''B) '' @ B qrow"
| "radio_label qrow OptC = ''C) '' @ C qrow"
| "radio_label qrow OptD = ''D) '' @ D qrow"

text \<open>\<^verbatim>\<open>choice.split(")")[0]\<close>: the part of the string before its first \<^verbatim>\<open>)\<close>.\<close>

definition split_paren_first :: "string \<Rightarrow> string" where
  "split_paren_first s = takeWhile (\<lambda>ch. ch \<noteq> CHR '')'') s"

text \<open>
  Lines 314-318: has \<open>nm\<close> a response to the current question? The loop with
  \<^verbatim>\<open>break\<close> is an existence test.
\<close>

definition answered :: "string \<Rightarrow> Quiz \<Rightarrow> bool" where
  "answered nm quiz =
     list_ex (\<lambda>r. r_name r = nm) (dict_get (responses quiz) (current_q quiz) [])"

text \<open>
  \<^verbatim>\<open>page_student\<close>, lines 298-342, for a student whose session has joined, with the
  button "Enviar respuesta" pressed and \<open>sel\<close> the state of the radio widget.
\<close>

definition submit_answer :: "string \<Rightarrow> option_key option \<Rightarrow> Quiz \<Rightarrow> error + Quiz" where
  "submit_answer nm sel quiz =
     (if \<not> started quiz then Inl NotStarted
      else case find (\<lambda>q. qid q = current_q quiz) (questions quiz) of
        None \<Rightarrow> Inl StopIteration
      | Some qrow \<Rightarrow>
          (if answered nm quiz then Inl AlreadyAnswered
           else (case map_option (radio_label qrow) sel of
             None \<Rightarrow> Inl NoChoice
           | Some choice \<Rightarrow>
              (let letter = split_paren_first choice;
                   correct_flag = (letter = correct qrow);
                   rs = dict_setdefault (responses quiz) (current_q quiz) [];
                   rs' = dict_set rs (current_q quiz)
                           (dict_get rs (current_q quiz) [] @
                              [\<lparr>r_name = nm, r_answer = letter, r_correct = correct_flag\<rparr>]);
                   sc = (if correct_flag
                         then dict_set (scores quiz) nm (dict_get (scores quiz) nm 0 + 1)
                         else scores quiz)
               in Inr (quiz\<lparr>responses := rs', scores := sc\<rparr>)))))"

text \<open>
  The same page run in its two halves. \<^verbatim>\<open>mgr.get\<close> gives the lock back when it
  returns, so nothing keeps another page run from changing the quiz between the test
  of lines 314-318 and the saving of lines 331-339. \<open>submit_check\<close> is the run up to the
  test (lines 298-320): it ends with a message, or it goes on with the question
  \<^verbatim>\<open>qrow\<close> that it read. \<open>submit_save\<close> is the rest (lines 321-340), on the quiz as it
  is by then; it reads \<^verbatim>\<open>quiz.current_q\<close> again and does not repeat the test.
\<close>

definition submit_check :: "string \<Rightarrow> Quiz \<Rightarrow> error + Question" where
  "submit_check nm quiz =
     (if \<not> started quiz then Inl NotStarted
      else case find (\<lambda>q. qid q = current_q quiz) (questions quiz) of
        None \<Rightarrow> Inl StopIteration
      | Some qrow \<Rightarrow> (if answered nm quiz then Inl AlreadyAnswered else Inr qrow))"

definition submit_save :: "string \<Rightarrow> Question \<Rightarrow> option_key option \<Rightarrow> Quiz \<Rightarrow> error + Quiz" where
  "submit_save nm qrow sel quiz =
     (case map_option (radio_label qrow) sel of
        None \<Rightarrow> Inl NoChoice
      | Some choice \<Rightarrow>
          (let letter = split_paren_first choice;
               correct_flag = (letter = correct qrow);
               rs = dict_setdefault (responses quiz) (current_q quiz) [];
               rs' = dict_set rs (current_q quiz)
                       (dict_get rs (current_q quiz) [] @
                          [\<lparr>r_name = nm, r_answer = letter, r_correct = correct_flag\<rparr>]);
               sc = (if correct_flag
                     then dict_set (scores quiz) nm (dict_get (scores quiz) nm 0 + 1)
                     else scores quiz)
           in Inr (quiz\<lparr>responses := rs', scores := sc\<rparr>)))"

section \<open>Views\<close>

text \<open>\<^verbatim>\<open>int(x)\<close> of a float: truncation toward zero.\<close>

definition py_int :: "real \<Rightarrow> int" where
  "py_int x = (if 0 \<le> x then \<lfloor>x\<rfloor> else \<lceil>x\<rceil>)"

text \<open>The countdown \<^verbatim>\<open>left\<close> of lines 199 and 310.\<close>

definition left :: "real \<Rightarrow> Quiz \<Rightarrow> int" where
  "left now quiz = max (py_int (real_of_int (time_per_q quiz) - (now - started_at quiz))) 0"

text \<open>
  Lines 203-208: the counts of the current question's responses per option. The
  \<^verbatim>\<open>for\<close> loop is a \<open>fold\<close> over the response list.
\<close>

definition option_keys :: "string list" where
  "option_keys = [''A'', ''B'', ''C'', ''D'']"

definition count_step :: "Response \<Rightarrow> (string \<times> int) list \<Rightarrow> (string \<times> int) list" where
  "count_step r counts = dict_set counts (r_answer r) (dict_get counts (r_answer r) 0 + 1)"

definition tally :: "Quiz \<Rightarrow> (string \<times> int) list" where
  "tally quiz =
     (let df = dict_get (responses quiz) (current_q quiz) [];
          counts = fold count_step df (map (\<lambda>k. (k, 0)) option_keys)
      in map (\<lambda>k. (k, dict_get counts k 0)) option_keys)"

text \<open>
  Lines 214-218: the ranking. With no scores the page shows a caption and no table:
  no rows. Python compares the keys \<^verbatim>\<open>(-kv[1], kv[0])\<close> lexicographically, the names
  character by character, and \<^verbatim>\<open>sorted\<close> is stable, as \<open>sort_key\<close> is.
\<close>

definition leaderboard :: "Quiz \<Rightarrow> (string \<times> int) list" where
  "leaderboard quiz =
     (if scores quiz = [] then []
      else sort_key (\<lambda>kv. (- snd kv, fst kv)) (scores quiz))"

section \<open>The registry of quizzes\<close>

text \<open>
  \<^verbatim>\<open>f"{n}"\<close> for a non-negative integer: its decimal digits.
\<close>

definition digit_char :: "nat \<Rightarrow> char" where
  "digit_char d = ''0123456789'' ! d"

fun str_nat :: "nat \<Rightarrow> string" where
  "str_nat n = (if n < 10 then [digit_char n] else str_nat (n div 10) @ [digit_char (n mod 10)])"

declare str_nat.simps [simp del]

text \<open>
  \<^verbatim>\<open>random.randint(a, b)\<close> returns some integer between \<open>a\<close> and \<open>b\<close>, both included.
  The generator is a stream \<open>rnd\<close> of raw numbers, one per call, brought into the range.
\<close>

definition randint :: "nat \<Rightarrow> nat \<Rightarrow> nat \<Rightarrow> nat" where
  "randint a b raw = a + raw mod (b - a + 1)"

text \<open>
  \<^verbatim>\<open>QuizManager.new_pin\<close>, lines 49-55: \<^verbatim>\<open>while True\<close> draws until the PIN is not a
  key of \<^verbatim>\<open>self.quizzes\<close>. The loop has no other exit, so the function is partial:
  \<open>None\<close> is "never returns". \<open>i\<close> counts the draws made so far. The result is the PIN
  with the updated dictionary.
\<close>

partial_function (option) new_pin ::
  "(nat \<Rightarrow> nat) \<Rightarrow> nat \<Rightarrow> (string \<times> Quiz) list \<Rightarrow> (string \<times> (string \<times> Quiz) list) option" where
  "new_pin rnd i quizzes =
     (if \<not> dict_mem (str_nat (randint 1000 9999 (rnd i))) quizzes
      then Some (str_nat (randint 1000 9999 (rnd i)),
                 dict_set quizzes (str_nat (randint 1000 9999 (rnd i))) new_Quiz)
      else new_pin rnd (Suc i) quizzes)"

text \<open>A registry in which every PIN from 1000 to 9999 is in use.\<close>

definition full_registry :: "(string \<times> Quiz) list" where
  "full_registry = map (\<lambda>n. (str_nat n, new_Quiz)) [1000..<10000]"

section \<open>Sequences of commands on one quiz\<close>

text \<open>
  What the two pages can ask of one quiz. A command that a page answers with a message
  leaves the quiz as it was. The number widget of line 100 only returns values from 5
  to 300. \<^verbatim>\<open>page_student\<close> reaches the submission
  only when \<^verbatim>\<open>st.session_state.joined\<close> is set, which lines 287-293 do after making
  sure that the name is in \<^verbatim>\<open>quiz.participants\<close>; no command removes a participant,
  so the flag is the membership test in \<open>exec\<close>.

  Each command is one callback or one whole page run, with nothing happening in
  between: \<open>SubmitAnswer\<close> is a run of the student page whose two halves follow each
  other at once. Page runs of several browser sessions that overlap are not sequences
  of these commands; they are followed with \<open>submit_check\<close> and \<open>submit_save\<close>
  directly.
\<close>

datatype command =
  Configure string int
  | AddQuestion string string string string string option_key
  | ClearQuiz
  | StartSession real
  | NextQuestion real
  | PrevQuestion real
  | ToggleReveal
  | StopSession
  | Join string
  | SubmitAnswer string "option_key option"

definition applied :: "Quiz \<Rightarrow> error + Quiz \<Rightarrow> Quiz" where
  "applied quiz res = (case res of Inl _ \<Rightarrow> quiz | Inr quiz' \<Rightarrow> quiz')"

fun exec :: "command \<Rightarrow> Quiz \<Rightarrow> Quiz" where
  "exec (Configure t secs) quiz =
     (if 5 \<le> secs \<and> secs \<le> 300 then configure t secs quiz else quiz)"
| "exec (AddQuestion qt a b c d k) quiz = applied quiz (add_question qt a b c d k quiz)"
| "exec ClearQuiz quiz = clear_quiz quiz"
| "exec (StartSession now) quiz = start_quiz now quiz"
| "exec (NextQuestion now) quiz = next_q now quiz"
| "exec (PrevQuestion now) quiz = prev_q now quiz"
| "exec ToggleReveal quiz = toggle_reveal quiz"
| "exec StopSession quiz = stop_quiz quiz"
| "exec (Join nm) quiz = applied quiz (join_quiz nm quiz)"
| "exec (SubmitAnswer nm sel) quiz =
     (if nm \<in> set (participants quiz) then applied quiz (submit_answer nm sel quiz) else quiz)"

text \<open>The quiz after a sequence of commands, from \<^verbatim>\<open>Quiz()\<close>.\<close>

definition run :: "command list \<Rightarrow> Quiz" where
  "run cmds = fold exec cmds new_Quiz"

section \<open>Notions of the specification\<close>

text \<open>The stored score of a participant, read as line 338 reads it.\<close>

definition score_of :: "string \<Rightarrow> Quiz \<Rightarrow> int" where
  "score_of nm quiz = dict_get (scores quiz) nm 0"

text \<open>The responses recorded for a question id.\<close>

definition answers_of :: "int \<Rightarrow> Quiz \<Rightarrow> Response list" where
  "answers_of k quiz = dict_get (responses quiz) k []"

text \<open>The number of correct responses of a participant, over all questions.\<close>

definition correct_count :: "string \<Rightarrow> Quiz \<Rightarrow> int" where
  "correct_count nm quiz =
     int (length (filter (\<lambda>r. r_name r = nm \<and> r_correct r) (concat (map snd (responses quiz)))))"

text \<open>The number of correct responses of a participant in one response list.\<close>

definition n_correct :: "string \<Rightarrow> Response list \<Rightarrow> nat" where
  "n_correct nm rs = length (filter (\<lambda>r. r_name r = nm \<and> r_correct r) rs)"

text \<open>Every stored score is the number of the participant's correct responses.\<close>

definition scores_match :: "Quiz \<Rightarrow> bool" where
  "scores_match quiz = (\<forall>nm. score_of nm quiz = correct_count nm quiz)"

text \<open>The number of responses to the current question that chose option \<open>k\<close>.\<close>

definition count_answers :: "string \<Rightarrow> Quiz \<Rightarrow> int" where
  "count_answers k quiz =
     int (length (filter (\<lambda>r. r_answer r = k) (dict_get (responses quiz) (current_q quiz) [])))"

text \<open>The question ids are 1, 2, 3, ... in the order of the list.\<close>

definition ids_sequential :: "Quiz \<Rightarrow> bool" where
  "ids_sequential quiz = (map qid (questions quiz) = [1..int (length (questions quiz))])"

text \<open>
  The order of the ranking: a higher score first, and among equal scores the smaller
  name first.
\<close>

definition ranks_before :: "string \<times> int \<Rightarrow> string \<times> int \<Rightarrow> bool" where
  "ranks_before x y = (snd y < snd x \<or> (snd x = snd y \<and> fst x \<le> fst y))"

section \<open>Example inputs\<close>

text \<open>Two questions a teacher may add, used where a concrete quiz is needed.\<close>

definition add_sum :: command where
  "add_sum = AddQuestion ''2+2?'' ''3'' ''4'' ''5'' ''6'' OptB"

definition add_capital :: command where
  "add_capital = AddQuestion ''Capital?'' ''Lima'' ''Quito'' ''Bogota'' ''Cali'' OptC"

text \<open>The first of them as the record that \<open>add_sum\<close> stores in an empty list.\<close>

definition sum_question :: Question where
  "sum_question = \<lparr>qid = 1, qtext = ''2+2?'', A = ''3'', B = ''4'', C = ''5'', D = ''6'',
     correct = ''B''\<rparr>"

text \<open>
  Two browser sessions have joined as Ana and press "Enviar respuesta" with option B at
  the same moment, on the running quiz \<open>race_start\<close>: both page runs pass the test
  before either saves. \<open>race_first\<close> is the quiz after the first run has saved,
  \<open>race_second\<close> after the second has.
\<close>

definition race_start :: Quiz where
  "race_start = run [add_sum, Join ''Ana'', StartSession 100]"

definition race_first :: Quiz where
  "race_first = applied race_start (submit_save ''Ana'' sum_question (Some OptB) race_start)"

definition race_second :: Quiz where
  "race_second = applied race_first (submit_save ''Ana'' sum_question (Some OptB) race_first)"

text \<open>
  Ana and Bea join, the teacher presses "Borrar todas", adds a question and starts.
\<close>

definition cleared_start :: Quiz where
  "cleared_start = run [Join ''Ana'', Join ''Bea'', ClearQuiz, add_sum, StartSession 100]"

section \<open>Dictionary lemmas\<close>

lemma dict_get_set:
  "dict_get (dict_set d k v) k' dflt = (if k' = k then v else dict_get d k' dflt)"
  by (simp add: dict_get_def dict_set_def update_conv')

lemma dict_get_setdefault:
  "dict_get (dict_setdefault d k v) k' dflt =
     (if k' = k \<and> \<not> dict_mem k d then v else dict_get d k' dflt)"
  by (auto simp: dict_get_def dict_setdefault_def dict_mem_def map_of_append split: option.splits)

lemma dict_get_setdefault_same:
  "dict_get (dict_setdefault d k dflt) k dflt = dict_get d k dflt"
  by (auto simp: dict_get_def dict_setdefault_def map_of_append split: option.splits)

lemma keys_dict_set: "fst ` set (dict_set d k v) = insert k (fst ` set d)"
  by (simp add: dict_set_def dom_update)

lemma keys_dict_setdefault: "fst ` set (dict_setdefault d k v) = insert k (fst ` set d)"
proof (cases "map_of d k")
  case None
  then show ?thesis by (simp add: dict_setdefault_def)
next
  case (Some v')
  then have "k \<in> fst ` set d"
    by (metis fst_conv image_eqI map_of_SomeD)
  with Some show ?thesis by (auto simp: dict_setdefault_def)
qed

section \<open>Unfolding the model on concrete inputs\<close>

lemmas eval_defs =
  run_def add_sum_def add_capital_def new_Quiz_def add_question_def applied_def join_quiz_def
  start_quiz_def submit_answer_def answered_def dict_get_def dict_set_def dict_setdefault_def
  dict_mem_def split_paren_first_def Let_def stop_quiz_def next_q_def prev_q_def clear_quiz_def
  configure_def toggle_reveal_def

lemmas order_eval = less_eq_prod_def less_prod_def less_char_def less_eq_char_def

section \<open>The views\<close>

lemma fold_count_step:
  "dict_get (fold count_step rs cnt) k 0 =
     dict_get cnt k 0 + int (length (filter (\<lambda>r. r_answer r = k) rs))"
  by (induction rs arbitrary: cnt) (simp_all add: count_step_def dict_get_set)

lemma dict_get_zero_counts: "dict_get (map (\<lambda>k. (k, 0::int)) ks) k 0 = 0"
  by (induction ks) (simp_all add: dict_get_def)

lemma tally_eq: "tally quiz = map (\<lambda>k. (k, count_answers k quiz)) option_keys"
  by (simp add: tally_def Let_def count_answers_def fold_count_step dict_get_zero_counts)

text \<open>
  Claim C10. The tally of lines 203-208 is defined for every quiz, whatever its current
  question id: it is the dictionary with exactly the keys A, B, C, D, in this order,
  each with the number of responses to the current question whose answer is that
  letter. When \<^verbatim>\<open>quiz.responses\<close> has no entry for the current question id, all four
  counts are zero. The model has no error branch because none of the six lines can
  raise.
\<close>

theorem tally_counts:
  "tally quiz = [(''A'', count_answers ''A'' quiz), (''B'', count_answers ''B'' quiz),
                 (''C'', count_answers ''C'' quiz), (''D'', count_answers ''D'' quiz)]
   \<and> (\<not> dict_mem (current_q quiz) (responses quiz) \<longrightarrow>
        tally quiz = [(''A'', 0), (''B'', 0), (''C'', 0), (''D'', 0)])"
  by (simp add: tally_eq option_keys_def count_answers_def dict_get_def dict_mem_def)

theorem tally_counts_witness:
  "\<not> dict_mem (current_q new_Quiz) (responses new_Quiz)
   \<and> tally new_Quiz = [(''A'', 0), (''B'', 0), (''C'', 0), (''D'', 0)]
   \<and> tally (run [add_sum, Join ''Ana'', StartSession 100, SubmitAnswer ''Ana'' (Some OptB)])
      = [(''A'', 0), (''B'', 1), (''C'', 0), (''D'', 0)]"
  using tally_counts [of new_Quiz]
    tally_counts [of "run [add_sum, Join ''Ana'', StartSession 100, SubmitAnswer ''Ana'' (Some OptB)]"]
  by (simp add: eval_defs count_answers_def)

text \<open>
  Claim C9. "Borrar todas" empties the question list and both dictionaries, so that
  every score read with \<^verbatim>\<open>scores.get(name, 0)\<close> is zero and every question has no
  responses; the quiz is not started, the current question is 0 and nothing is
  revealed. The participants, the title and the seconds per question stay as they were.
\<close>

theorem clear_quiz_effect:
  "questions (clear_quiz quiz) = [] \<and> responses (clear_quiz quiz) = []
   \<and> scores (clear_quiz quiz) = [] \<and> score_of nm (clear_quiz quiz) = 0
   \<and> answers_of k (clear_quiz quiz) = []
   \<and> \<not> started (clear_quiz quiz) \<and> current_q (clear_quiz quiz) = 0
   \<and> \<not> reveal (clear_quiz quiz)
   \<and> participants (clear_quiz quiz) = participants quiz
   \<and> title (clear_quiz quiz) = title quiz
   \<and> time_per_q (clear_quiz quiz) = time_per_q quiz"
  by (simp add: clear_quiz_def score_of_def answers_of_def dict_get_def)

lemma py_int_max: "max (py_int x) 0 = \<lfloor>max x 0\<rfloor>"
  unfolding py_int_def by (auto simp: max_def) linarith+

text \<open>
  Claim C7, as amended. The countdown of lines 199 and 310 is
  \<open>max (time_per_q - (now - started_at)) 0\<close> rounded down to a whole number of seconds
  (\<^verbatim>\<open>int\<close> truncates before \<^verbatim>\<open>max\<close> is taken). It is never negative; it equals the
  unrounded value when the elapsed time is a whole number of seconds; and at the instant
  \<open>started_at\<close> was set, in particular right after \<^verbatim>\<open>start_quiz\<close>, \<^verbatim>\<open>next_q\<close> or \<^verbatim>\<open>prev_q\<close>
  changed the question at time \<open>now\<close>, it equals \<open>time_per_q\<close> (which the number widget
  keeps non-negative).
\<close>

theorem left_floor:
  "left now quiz = \<lfloor>max (real_of_int (time_per_q quiz) - (now - started_at quiz)) 0\<rfloor>
   \<and> 0 \<le> left now quiz
   \<and> (now - started_at quiz \<in> \<int> \<longrightarrow>
        real_of_int (left now quiz) = max (real_of_int (time_per_q quiz) - (now - started_at quiz)) 0)
   \<and> (0 \<le> time_per_q quiz \<longrightarrow> left (started_at quiz) quiz = time_per_q quiz)
   \<and> (0 \<le> time_per_q quiz \<and> questions quiz \<noteq> [] \<longrightarrow>
        left now (start_quiz now quiz) = time_per_q quiz)
   \<and> (0 \<le> time_per_q quiz \<and> current_q quiz < int (length (questions quiz)) \<longrightarrow>
        left now (next_q now quiz) = time_per_q quiz)
   \<and> (0 \<le> time_per_q quiz \<and> 1 < current_q quiz \<longrightarrow>
        left now (prev_q now quiz) = time_per_q quiz)"
proof -
  have fl: "left t q = \<lfloor>max (real_of_int (time_per_q q) - (t - started_at q)) 0\<rfloor>" for t q
    by (simp add: left_def py_int_max)
  have at: "left (started_at q) q = time_per_q q" if "0 \<le> time_per_q q" for q
    using that by (simp add: fl max_def)
  have whole: "real_of_int (left now quiz) = max (real_of_int (time_per_q quiz) - (now - started_at quiz)) 0"
    if "now - started_at quiz \<in> \<int>"
  proof -
    from that have "max (real_of_int (time_per_q quiz) - (now - started_at quiz)) 0 \<in> \<int>"
      by (simp add: max_def)
    then show ?thesis by (simp add: fl)
  qed
  show ?thesis
    using at [of "start_quiz now quiz"] at [of "next_q now quiz"] at [of "prev_q now quiz"]
      at [of quiz] whole
    by (simp add: fl start_quiz_def next_q_def prev_q_def)
qed

theorem left_floor_witness:
  "left (201 / 2) (run [add_sum, StartSession 100]) = 19
   \<and> 130 - started_at (run [add_sum, StartSession 100]) \<in> \<int>
   \<and> left 130 (run [add_sum, StartSession 100]) = 0
   \<and> 0 \<le> time_per_q (run [add_sum, add_capital, StartSession 100, NextQuestion 110])
   \<and> questions (run [add_sum, add_capital, StartSession 100, NextQuestion 110]) \<noteq> []
   \<and> 1 < current_q (run [add_sum, add_capital, StartSession 100, NextQuestion 110])
   \<and> left 120 (start_quiz 120 (run [add_sum, add_capital, StartSession 100, NextQuestion 110])) = 20
   \<and> left 120 (prev_q 120 (run [add_sum, add_capital, StartSession 100, NextQuestion 110])) = 20
   \<and> current_q (run [add_sum, add_capital, StartSession 100])
        < int (length (questions (run [add_sum, add_capital, StartSession 100])))
   \<and> left 110 (next_q 110 (run [add_sum, add_capital, StartSession 100])) = 20"
  using left_floor [of "201 / 2" "run [add_sum, StartSession 100]"]
    left_floor [of 130 "run [add_sum, StartSession 100]"]
    left_floor [of 120 "run [add_sum, add_capital, StartSession 100, NextQuestion 110]"]
    left_floor [of 110 "run [add_sum, add_capital, StartSession 100]"]
  by (simp add: eval_defs)

text \<open>
  The claim without the rounding fails half a second after the start: the page shows 19 where the formula without rounding gives 19.5.
\<close>

theorem left_counterexample:
  "real_of_int (left (201 / 2) (run [add_sum, StartSession 100]))
   \<noteq> max (real_of_int (time_per_q (run [add_sum, StartSession 100]))
          - (201 / 2 - started_at (run [add_sum, StartSession 100]))) 0"
  by (simp add: eval_defs left_def py_int_def)

section \<open>The registry\<close>

lemma randint_range: "a \<le> b \<Longrightarrow> a \<le> randint a b raw \<and> randint a b raw \<le> b"
proof -
  assume ab: "a \<le> b"
  have "raw mod Suc (b - a) < Suc (b - a)"
    by (rule mod_less_divisor) simp
  then have "raw mod Suc (b - a) \<le> b - a" by simp
  then have "a + raw mod Suc (b - a) \<le> a + (b - a)" by (rule add_left_mono)
  with ab show ?thesis by (simp add: randint_def)
qed

lemma pin_range: "1000 \<le> randint 1000 9999 raw \<and> randint 1000 9999 raw \<le> 9999"
  by (rule randint_range) simp

lemma new_pin_Some_free:
  assumes "new_pin rnd i quizzes = Some y"
  shows "\<exists>n. 1000 \<le> n \<and> n \<le> 9999 \<and> \<not> dict_mem (str_nat n) quizzes"
proof (rule new_pin.raw_induct
    [where P = "\<lambda>rnd i quizzes y. \<exists>n. 1000 \<le> n \<and> n \<le> 9999 \<and> \<not> dict_mem (str_nat n) quizzes",
     OF _ assms])
  fix new_pin' :: "(nat \<Rightarrow> nat) \<Rightarrow> nat \<Rightarrow> (string \<times> Quiz) list \<Rightarrow> (string \<times> (string \<times> Quiz) list) option"
    and rnd i quizzes y
  assume IH: "\<And>rnd i quizzes y. new_pin' rnd i quizzes = Some y \<Longrightarrow>
      \<exists>n. 1000 \<le> n \<and> n \<le> 9999 \<and> \<not> dict_mem (str_nat n) quizzes"
    and step: "(if \<not> dict_mem (str_nat (randint 1000 9999 (rnd i))) quizzes
       then Some (str_nat (randint 1000 9999 (rnd i)),
                  dict_set quizzes (str_nat (randint 1000 9999 (rnd i))) new_Quiz)
       else new_pin' rnd (Suc i) quizzes) = Some y"
  show "\<exists>n. 1000 \<le> n \<and> n \<le> 9999 \<and> \<not> dict_mem (str_nat n) quizzes"
  proof (cases "dict_mem (str_nat (randint 1000 9999 (rnd i))) quizzes")
    case True
    with step have "new_pin' rnd (Suc i) quizzes = Some y" by simp
    then show ?thesis by (rule IH)
  next
    case False
    with pin_range[of "rnd i"] show ?thesis by blast
  qed
qed

lemma str_nat_4: "1000 \<le> n \<Longrightarrow> n \<le> 9999 \<Longrightarrow> length (str_nat n) = 4"
proof -
  assume a: "1000 \<le> n" "n \<le> 9999"
  have 1: "\<not> n < 10" using a by simp
  have 2: "\<not> n div 10 < 10" using a by simp
  have 3: "\<not> n div 10 div 10 < 10" using a by (simp add: div_mult2_eq[symmetric])
  have 4: "n div 10 div 10 div 10 < 10" using a by (simp add: div_mult2_eq[symmetric])
  have "str_nat n = [digit_char (n div 10 div 10 div 10)] @ [digit_char (n div 10 div 10 mod 10)]
      @ [digit_char (n div 10 mod 10)] @ [digit_char (n mod 10)]"
    by (simp add: str_nat.simps[of n] str_nat.simps[of "n div 10"] str_nat.simps[of "n div 10 div 10"]
       str_nat.simps[of "n div 10 div 10 div 10"] 1 2 3 4)
  then show ?thesis by simp
qed

lemma pin_length: "length (str_nat (randint 1000 9999 raw)) = 4"
  using pin_range[of raw] by (simp add: str_nat_4)

lemma new_pin_hit:
  assumes "\<not> dict_mem (str_nat (randint 1000 9999 (rnd (i + k)))) quizzes"
  shows "\<exists>p. new_pin rnd i quizzes = Some (p, dict_set quizzes p new_Quiz)
            \<and> \<not> dict_mem p quizzes \<and> length p = 4"
  using assms
proof (induction k arbitrary: i)
  case 0
  then show ?case
    by (subst new_pin.simps) (simp add: pin_length)
next
  case (Suc k)
  from Suc.prems have "\<not> dict_mem (str_nat (randint 1000 9999 (rnd (Suc i + k)))) quizzes" by simp
  from Suc.IH[OF this] obtain p where p: "new_pin rnd (Suc i) quizzes = Some (p, dict_set quizzes p new_Quiz)"
     "\<not> dict_mem p quizzes" "length p = 4" by blast
  show ?case
  proof (cases "dict_mem (str_nat (randint 1000 9999 (rnd i))) quizzes")
    case True
    with p show ?thesis by (subst new_pin.simps) simp
  next
    case False
    then show ?thesis
      by (subst new_pin.simps) (simp add: pin_length)
  qed
qed

lemma full_registry_mem: "1000 \<le> n \<Longrightarrow> n \<le> 9999 \<Longrightarrow> dict_mem (str_nat n) full_registry"
proof -
  assume "1000 \<le> n" "n \<le> 9999"
  then have "n \<in> {1000..<10000}" by simp
  then have "n \<in> set [1000..<10000]" by (simp only: set_upt)
  then have "str_nat n \<in> str_nat ` set [1000..<10000]" by (rule imageI)
  also have "str_nat ` set [1000..<10000] = fst ` set full_registry"
    by (simp only: full_registry_def set_map image_image fst_conv)
  finally show ?thesis by (simp only: dict_mem_def map_of_eq_None_iff not_not)
qed

text \<open>
  Claim C8. \<^verbatim>\<open>new_pin\<close> does not always return. When every PIN from 1000 to 9999 is
  a key of \<^verbatim>\<open>self.quizzes\<close>, no draw leaves the loop, whatever the generator produces:
  the call never returns (and keeps the lock). When some later draw, the \<open>k\<close>-th from
  now, is a free PIN, the call returns a PIN of four characters that was not in use and
  the dictionary with \<^verbatim>\<open>Quiz()\<close> stored under it.
\<close>

theorem new_pin_exhausted:
  "((\<forall>n. 1000 \<le> n \<and> n \<le> 9999 \<longrightarrow> dict_mem (str_nat n) quizzes) \<longrightarrow>
      new_pin rnd i quizzes = None)
   \<and> (\<not> dict_mem (str_nat (randint 1000 9999 (rnd (i + k)))) quizzes \<longrightarrow>
        (\<exists>p. new_pin rnd i quizzes = Some (p, dict_set quizzes p new_Quiz)
            \<and> \<not> dict_mem p quizzes \<and> length p = 4))"
proof (intro conjI impI)
  assume all: "\<forall>n. 1000 \<le> n \<and> n \<le> 9999 \<longrightarrow> dict_mem (str_nat n) quizzes"
  show "new_pin rnd i quizzes = None"
  proof (cases "new_pin rnd i quizzes")
    case (Some y)
    from new_pin_Some_free [OF this] all show ?thesis by blast
  qed simp
next
  assume "\<not> dict_mem (str_nat (randint 1000 9999 (rnd (i + k)))) quizzes"
  then show "\<exists>p. new_pin rnd i quizzes = Some (p, dict_set quizzes p new_Quiz)
            \<and> \<not> dict_mem p quizzes \<and> length p = 4"
    by (rule new_pin_hit)
qed

lemma new_pin_example:
  "new_pin (\<lambda>i. 234 + i) 0 [(''1234'', new_Quiz)]
     = Some (''1235'', [(''1234'', new_Quiz), (''1235'', new_Quiz)])"
  by (subst new_pin.simps, subst new_pin.simps)
    (simp add: randint_def dict_mem_def dict_set_def digit_char_def str_nat.simps)

theorem new_pin_exhausted_witness:
  "(\<forall>rnd i. new_pin rnd i full_registry = None)
   \<and> \<not> dict_mem (str_nat (randint 1000 9999 (234 + (0 + 1)))) [(''1234'', new_Quiz)]
   \<and> new_pin (\<lambda>i. 234 + i) 0 [(''1234'', new_Quiz)]
        = Some (''1235'', [(''1234'', new_Quiz), (''1235'', new_Quiz)])"
proof -
  have free: "\<not> dict_mem (str_nat (randint 1000 9999 (234 + (0 + 1)))) [(''1234'', new_Quiz)]"
    by (simp add: randint_def dict_mem_def digit_char_def str_nat.simps)
  have full: "\<forall>n. 1000 \<le> n \<and> n \<le> 9999 \<longrightarrow> dict_mem (str_nat n) full_registry"
    by (simp add: full_registry_mem)
  from new_pin_exhausted [of full_registry] full
  have "\<forall>rnd i. new_pin rnd i full_registry = None" by blast
  moreover from new_pin_exhausted [of "[(''1234'', new_Quiz)]" "\<lambda>i. 234 + i" 0 1] free
  have "\<exists>p. new_pin (\<lambda>i. 234 + i) 0 [(''1234'', new_Quiz)]
           = Some (p, dict_set [(''1234'', new_Quiz)] p new_Quiz)" by blast
  ultimately show ?thesis using free new_pin_example by blast
qed

section \<open>What holds after every sequence of commands\<close>

lemma run_snoc: "run (cmds @ [c]) = exec c (run cmds)"
  by (simp add: run_def)

lemma run_Nil: "run [] = new_Quiz"
  by (simp add: run_def)

lemma run_induct:
  assumes "P new_Quiz" and "\<And>c quiz. P quiz \<Longrightarrow> P (exec c quiz)"
  shows "P (run cmds)"
  by (induction cmds rule: rev_induct) (simp_all add: run_snoc run_Nil assms)

lemma last_upto: "i \<le> n \<Longrightarrow> last [i..n] = n"
  by (subst upto_rec2) simp_all

lemma ids_sequential_last:
  assumes "ids_sequential quiz" and ne: "questions quiz \<noteq> []"
  shows "qid (last (questions quiz)) = int (length (questions quiz))"
proof -
  have "qid (last (questions quiz)) = last (map qid (questions quiz))"
    using ne by (simp add: last_map)
  also have "\<dots> = last [1..int (length (questions quiz))]"
    using assms(1) by (simp add: ids_sequential_def)
  also have "\<dots> = int (length (questions quiz))"
    using ne by (intro last_upto) (cases "questions quiz", simp_all)
  finally show ?thesis .
qed

lemma ids_sequential_hd:
  assumes "ids_sequential quiz" and ne: "questions quiz \<noteq> []"
  shows "qid (hd (questions quiz)) = 1"
proof -
  have "qid (hd (questions quiz)) = hd (map qid (questions quiz))"
    using ne by (simp add: hd_map)
  also have "\<dots> = hd [1..int (length (questions quiz))]"
    using assms(1) by (simp add: ids_sequential_def)
  also have "\<dots> = 1"
    using ne by (subst upto_rec1) (cases "questions quiz", simp_all)
  finally show ?thesis .
qed

lemma ids_sequential_nth:
  assumes "ids_sequential quiz" and "i < length (questions quiz)"
  shows "qid (questions quiz ! i) = int i + 1"
proof -
  have "qid (questions quiz ! i) = map qid (questions quiz) ! i"
    using assms(2) by simp
  also have "\<dots> = [1..int (length (questions quiz))] ! i"
    using assms(1) by (simp add: ids_sequential_def)
  also have "\<dots> = 1 + int i"
    using assms(2) by (intro nth_upto) simp
  finally show ?thesis by simp
qed

lemma ids_sequential_Max:
  assumes "ids_sequential quiz" and ne: "questions quiz \<noteq> []"
  shows "Max (qid ` set (questions quiz)) = int (length (questions quiz))"
proof -
  have "qid ` set (questions quiz) = set (map qid (questions quiz))" by simp
  also have "\<dots> = {1..int (length (questions quiz))}"
    using assms(1) by (simp add: ids_sequential_def)
  finally have "Max (qid ` set (questions quiz)) = Max {1..int (length (questions quiz))}" by simp
  also have "\<dots> = int (length (questions quiz))"
  proof -
    from ne have "1 \<le> int (length (questions quiz))"
      by (cases "questions quiz") simp_all
    then show ?thesis by (intro Max_eqI) auto
  qed
  finally show ?thesis .
qed

lemma ids_sequential_add:
  assumes "ids_sequential quiz" and "add_question qt a b c d k quiz = Inr quiz'"
  shows "ids_sequential quiz'"
proof (cases "questions quiz = []")
  case True
  with assms show ?thesis
    by (auto simp: add_question_def ids_sequential_def split: if_splits)
next
  case False
  with assms ids_sequential_last[OF assms(1) False] show ?thesis
    by (auto simp: add_question_def ids_sequential_def upto_rec2 split: if_splits)
qed

lemma ids_sequential_exec: "ids_sequential quiz \<Longrightarrow> ids_sequential (exec c quiz)"
proof (cases c)
  case (AddQuestion qt a b c d k)
  assume "ids_sequential quiz"
  then show ?thesis
    using AddQuestion ids_sequential_add[of quiz qt a b c d k]
    by (cases "add_question qt a b c d k quiz") (simp_all add: applied_def)
next
  case ClearQuiz
  then show ?thesis by (simp add: clear_quiz_def ids_sequential_def)
qed (auto simp: ids_sequential_def configure_def start_quiz_def next_q_def prev_q_def
     toggle_reveal_def stop_quiz_def join_quiz_def submit_answer_def applied_def Let_def
     split: option.splits if_splits)

lemma ids_sequential_run: "ids_sequential (run cmds)"
  by (rule run_induct) (simp add: ids_sequential_def new_Quiz_def, rule ids_sequential_exec)

text \<open>
  Claim C5. "Agregar pregunta" shows the error and changes nothing when one of the five
  text fields is empty (the sixth field is the select box, which always holds a
  letter). Otherwise it appends a question whose id is 1 when there are no questions and
  the largest id plus one when there are (the code takes the id of the last question,
  which after any sequence of commands is the largest). So after any sequence of
  commands, whatever it clears or adds, the ids are 1, 2, 3, ... in the order of the
  list.
\<close>

theorem add_question_ids:
  "((qt = [] \<or> a = [] \<or> b = [] \<or> c = [] \<or> d = []) \<longrightarrow>
       add_question qt a b c d k quiz = Inl IncompleteQuestion
       \<and> exec (AddQuestion qt a b c d k) quiz = quiz)
   \<and> (qt \<noteq> [] \<and> a \<noteq> [] \<and> b \<noteq> [] \<and> c \<noteq> [] \<and> d \<noteq> [] \<longrightarrow>
       add_question qt a b c d k (run cmds) =
         Inr ((run cmds)\<lparr>questions := questions (run cmds) @
           [\<lparr>qid = (if questions (run cmds) = [] then 1
                    else Max (qid ` set (questions (run cmds))) + 1),
             qtext = qt, A = a, B = b, C = c, D = d, correct = key_letter k\<rparr>]\<rparr>))
   \<and> map qid (questions (run cmds)) = [1..int (length (questions (run cmds)))]"
proof (intro conjI impI)
  assume "qt = [] \<or> a = [] \<or> b = [] \<or> c = [] \<or> d = []"
  then show "add_question qt a b c d k quiz = Inl IncompleteQuestion"
    by (auto simp: add_question_def)
  then show "exec (AddQuestion qt a b c d k) quiz = quiz"
    by (simp add: applied_def)
next
  assume ne: "qt \<noteq> [] \<and> a \<noteq> [] \<and> b \<noteq> [] \<and> c \<noteq> [] \<and> d \<noteq> []"
  have "questions (run cmds) \<noteq> [] \<Longrightarrow>
      qid (last (questions (run cmds))) = Max (qid ` set (questions (run cmds)))"
    using ids_sequential_last[OF ids_sequential_run] ids_sequential_Max[OF ids_sequential_run]
    by simp
  with ne show "add_question qt a b c d k (run cmds) =
         Inr ((run cmds)\<lparr>questions := questions (run cmds) @
           [\<lparr>qid = (if questions (run cmds) = [] then 1
                    else Max (qid ` set (questions (run cmds))) + 1),
             qtext = qt, A = a, B = b, C = c, D = d, correct = key_letter k\<rparr>]\<rparr>)"
    by (simp add: add_question_def)
next
  show "map qid (questions (run cmds)) = [1..int (length (questions (run cmds)))]"
    using ids_sequential_run[of cmds] by (simp add: ids_sequential_def)
qed

theorem add_question_ids_witness:
  "add_question [] ''3'' ''4'' ''5'' ''6'' OptB (run [add_sum]) = Inl IncompleteQuestion
   \<and> exec (AddQuestion [] ''3'' ''4'' ''5'' ''6'' OptB) (run [add_sum]) = run [add_sum]
   \<and> map qid (questions (run [add_sum, ClearQuiz, add_capital, add_sum, add_sum])) = [1, 2, 3]
   \<and> map qtext (questions (run [add_sum, ClearQuiz, add_capital, add_sum, add_sum]))
        = [''Capital?'', ''2+2?'', ''2+2?'']
   \<and> add_question ''1+1?'' ''1'' ''2'' ''3'' ''4'' OptB (run [add_sum, add_capital])
       = Inr ((run [add_sum, add_capital])\<lparr>questions := questions (run [add_sum, add_capital]) @
           [\<lparr>qid = 3, qtext = ''1+1?'', A = ''1'', B = ''2'', C = ''3'', D = ''4'', correct = ''B''\<rparr>]\<rparr>)"
  using add_question_ids [of "[]" "''3''" "''4''" "''5''" "''6''" OptB "run [add_sum]" "[add_sum]"]
    add_question_ids [of "''1+1?''" "''1''" "''2''" "''3''" "''4''" OptB new_Quiz "[add_sum, add_capital]"]
    add_question_ids [of "''1+1?''" "''1''" "''2''" "''3''" "''4''" OptB new_Quiz "[add_sum, ClearQuiz, add_capital, add_sum, add_sum]"]
  by (simp add: eval_defs)

lemma answered_iff: "answered nm quiz \<longleftrightarrow> nm \<in> r_name ` set (answers_of (current_q quiz) quiz)"
  by (auto simp: answered_def answers_of_def list_ex_iff)

lemma submit_answer_cases:
  assumes "submit_answer nm sel quiz = Inr quiz'"
  obtains qrow key where "started quiz"
    "find (\<lambda>q. qid q = current_q quiz) (questions quiz) = Some qrow"
    "\<not> answered nm quiz" "sel = Some key"
    "quiz' = quiz\<lparr>responses :=
               dict_set (dict_setdefault (responses quiz) (current_q quiz) []) (current_q quiz)
                 (answers_of (current_q quiz) quiz @
                   [\<lparr>r_name = nm, r_answer = split_paren_first (radio_label qrow key),
                     r_correct = (split_paren_first (radio_label qrow key) = correct qrow)\<rparr>]),
             scores := (if split_paren_first (radio_label qrow key) = correct qrow
                        then dict_set (scores quiz) nm (dict_get (scores quiz) nm 0 + 1)
                        else scores quiz)\<rparr>"
  using assms
  by (auto simp: submit_answer_def Let_def answers_of_def dict_get_setdefault_same
      split: if_splits option.splits)

lemma submit_answer_Inr:
  assumes "submit_answer nm sel quiz = Inr quiz'"
  shows "started quiz \<and> \<not> answered nm quiz
    \<and> (\<exists>r. r_name r = nm \<and> answers_of (current_q quiz) quiz' = answers_of (current_q quiz) quiz @ [r])
    \<and> (\<forall>k. k \<noteq> current_q quiz \<longrightarrow> answers_of k quiz' = answers_of k quiz)
    \<and> questions quiz' = questions quiz \<and> participants quiz' = participants quiz
    \<and> current_q quiz' = current_q quiz \<and> started quiz' = started quiz
    \<and> fst ` set (scores quiz') \<subseteq> insert nm (fst ` set (scores quiz))"
proof -
  from assms obtain qrow key where st: "started quiz" and na: "\<not> answered nm quiz"
    and q': "quiz' = quiz\<lparr>responses :=
               dict_set (dict_setdefault (responses quiz) (current_q quiz) []) (current_q quiz)
                 (answers_of (current_q quiz) quiz @
                   [\<lparr>r_name = nm, r_answer = split_paren_first (radio_label qrow key),
                     r_correct = (split_paren_first (radio_label qrow key) = correct qrow)\<rparr>]),
             scores := (if split_paren_first (radio_label qrow key) = correct qrow
                        then dict_set (scores quiz) nm (dict_get (scores quiz) nm 0 + 1)
                        else scores quiz)\<rparr>"
    by (rule submit_answer_cases)
  have 1: "\<exists>r. r_name r = nm \<and> answers_of (current_q quiz) quiz' = answers_of (current_q quiz) quiz @ [r]"
    by (simp add: q' answers_of_def dict_get_set)
  have 2: "\<forall>k. k \<noteq> current_q quiz \<longrightarrow> answers_of k quiz' = answers_of k quiz"
    by (simp add: q' answers_of_def dict_get_set dict_get_setdefault)
  have 3: "questions quiz' = questions quiz \<and> participants quiz' = participants quiz
    \<and> current_q quiz' = current_q quiz \<and> started quiz' = started quiz"
    by (simp add: q')
  have 4: "fst ` set (scores quiz') \<subseteq> insert nm (fst ` set (scores quiz))"
    unfolding q' by (simp add: keys_dict_set subset_insertI)
  from st na 1 2 3 4 show ?thesis by blast
qed

lemma scores_participants_exec:
  assumes "fst ` set (scores quiz) \<subseteq> set (participants quiz)"
  shows "fst ` set (scores (exec c quiz)) \<subseteq> set (participants (exec c quiz))"
proof (cases c)
  case (SubmitAnswer nm sel)
  show ?thesis
  proof (cases "submit_answer nm sel quiz")
    case (Inl e)
    with SubmitAnswer assms show ?thesis by (simp add: applied_def)
  next
    case (Inr quiz')
    from submit_answer_Inr[OF Inr]
    have p: "participants quiz' = participants quiz"
      and s: "fst ` set (scores quiz') \<subseteq> insert nm (fst ` set (scores quiz))" by simp_all
    have "fst ` set (scores quiz') \<subseteq> set (participants quiz')"
      if "nm \<in> set (participants quiz)"
    proof -
      from that assms have "insert nm (fst ` set (scores quiz)) \<subseteq> set (participants quiz)"
        by simp
      with s show ?thesis unfolding p by (rule subset_trans)
    qed
    with SubmitAnswer Inr assms show ?thesis
      by (simp add: applied_def)
  qed
next
  case (Join nm)
  with assms show ?thesis
    by (auto simp: join_quiz_def applied_def keys_dict_setdefault)
qed (use assms in \<open>auto simp: configure_def add_question_def clear_quiz_def start_quiz_def next_q_def
       prev_q_def toggle_reveal_def stop_quiz_def applied_def split: if_splits\<close>)

lemma scores_participants_run: "fst ` set (scores (run cmds)) \<subseteq> set (participants (run cmds))"
  by (rule run_induct) (simp_all add: scores_participants_exec, simp add: new_Quiz_def)

lemma current_q_exec:
  assumes "0 \<le> current_q quiz \<and> current_q quiz \<le> int (length (questions quiz)) \<and> (started quiz \<longrightarrow> 1 \<le> current_q quiz)"
  shows "0 \<le> current_q (exec c quiz) \<and> current_q (exec c quiz) \<le> int (length (questions (exec c quiz)))
     \<and> (started (exec c quiz) \<longrightarrow> 1 \<le> current_q (exec c quiz))"
proof (cases c)
  case (SubmitAnswer nm sel)
  show ?thesis
  proof (cases "submit_answer nm sel quiz")
    case (Inl e)
    with SubmitAnswer assms show ?thesis by (simp add: applied_def)
  next
    case (Inr quiz')
    from submit_answer_Inr[OF Inr] SubmitAnswer Inr assms show ?thesis
      by (auto simp: applied_def)
  qed
next
  case (StartSession now)
  with assms show ?thesis by (cases "questions quiz") (auto simp: start_quiz_def)
qed (use assms in \<open>auto simp: configure_def add_question_def clear_quiz_def next_q_def
       prev_q_def toggle_reveal_def stop_quiz_def join_quiz_def applied_def split: if_splits\<close>)

lemma current_q_run:
  "0 \<le> current_q (run cmds) \<and> current_q (run cmds) \<le> int (length (questions (run cmds)))
     \<and> (started (run cmds) \<longrightarrow> 1 \<le> current_q (run cmds))"
  by (rule run_induct) (simp add: new_Quiz_def, rule current_q_exec)


lemma find_current_q:
  assumes ids: "ids_sequential quiz" and lo: "1 \<le> current_q quiz"
    and hi: "current_q quiz \<le> int (length (questions quiz))"
  shows "find (\<lambda>q. qid q = current_q quiz) (questions quiz) \<noteq> None"
proof -
  let ?i = "nat (current_q quiz - 1)"
  from lo hi have i: "?i < length (questions quiz)" by simp
  from ids_sequential_nth[OF ids i] lo have "qid (questions quiz ! ?i) = current_q quiz" by simp
  with i have "\<exists>q \<in> set (questions quiz). qid q = current_q quiz"
    using nth_mem by blast
  then show ?thesis by (auto simp: find_None_iff)
qed

lemma current_question_run:
  "started (run cmds) \<Longrightarrow> find (\<lambda>q. qid q = current_q (run cmds)) (questions (run cmds)) \<noteq> None"
  using find_current_q[OF ids_sequential_run, of cmds] current_q_run[of cmds] by simp

lemma submit_answer_answered:
  "answered nm quiz \<Longrightarrow> \<exists>e. submit_answer nm sel quiz = Inl e"
  by (simp add: submit_answer_def split: option.splits)

text \<open>
  A whole page run refuses a participant who has a response to the current question:
  in a started quiz it shows "Respuesta enviada" in place of the form
  (\<open>AlreadyAnswered\<close>), and in every case the quiz stays exactly as it was. So a second
  whole page run right after an accepted one is refused.
\<close>

lemma submit_answer_refused:
  "(started quiz \<and> find (\<lambda>q. qid q = current_q quiz) (questions quiz) \<noteq> None \<and> answered nm quiz \<longrightarrow>
       submit_answer nm sel quiz = Inl AlreadyAnswered)
   \<and> (answered nm quiz \<longrightarrow> exec (SubmitAnswer nm sel) quiz = quiz)
   \<and> (submit_answer nm sel quiz = Inr quiz' \<longrightarrow>
        answered nm quiz' \<and> submit_answer nm sel' quiz' = Inl AlreadyAnswered
        \<and> exec (SubmitAnswer nm sel') quiz' = quiz')
   \<and> (started (run cmds) \<and> answered nm (run cmds) \<longrightarrow>
        submit_answer nm sel (run cmds) = Inl AlreadyAnswered)"
proof -
  have dup: "submit_answer n s q = Inl AlreadyAnswered"
    if "started q" "find (\<lambda>x. qid x = current_q q) (questions q) \<noteq> None" "answered n q" for n s q
    using that by (auto simp: submit_answer_def split: option.splits)
  have same: "exec (SubmitAnswer n s) q = q" if "answered n q" for n s q
    using submit_answer_answered [OF that, of s] by (auto simp: applied_def)
  have again: "answered nm quiz' \<and> submit_answer nm sel' quiz' = Inl AlreadyAnswered
        \<and> exec (SubmitAnswer nm sel') quiz' = quiz'"
    if ok: "submit_answer nm sel quiz = Inr quiz'"
  proof -
    from ok obtain qrow key where st: "started quiz"
      and f: "find (\<lambda>q. qid q = current_q quiz) (questions quiz) = Some qrow"
      by (rule submit_answer_cases)
    from submit_answer_Inr [OF ok] obtain r where r: "r_name r = nm"
      "answers_of (current_q quiz) quiz' = answers_of (current_q quiz) quiz @ [r]"
      and fr: "questions quiz' = questions quiz" "current_q quiz' = current_q quiz"
        "started quiz' = started quiz"
      by blast
    from r fr have a: "answered nm quiz'"
      by (simp add: answered_iff)
    from st f fr have "started quiz'" "find (\<lambda>q. qid q = current_q quiz') (questions quiz') \<noteq> None"
      by simp_all
    with a show ?thesis using dup same by blast
  qed
  show ?thesis
    using dup [of quiz nm sel] same [of nm quiz sel] again dup [OF _ current_question_run, of cmds nm sel]
    by blast
qed

text \<open>A whole page run is its two halves, one after the other.\<close>

lemma submit_answer_halves:
  "submit_answer nm sel quiz =
     (case submit_check nm quiz of Inl e \<Rightarrow> Inl e | Inr qrow \<Rightarrow> submit_save nm qrow sel quiz)"
  by (simp add: submit_answer_def submit_check_def submit_save_def split: option.splits)

lemmas race_defs = race_start_def race_first_def race_second_def sum_question_def submit_check_def
  submit_save_def cleared_start_def

text \<open>
  Claim C1. The code does not keep the pair of a question and a participant to one
  response and one point. The test for an earlier response and the saving are two
  steps with no lock around them. When two page runs for Ana overlap on the running
  quiz, both pass the test before either saves (a run that came after the first
  saving would be refused): both save, question 1 then holds two responses of Ana and
  her score is 2. And without any overlap: after the teacher stops and starts again,
  \<^verbatim>\<open>start_quiz\<close> has emptied the responses of question 1, so Ana's second submission
  for question 1 is accepted and scored again.
\<close>

theorem duplicate_answer_recorded:
  "submit_check ''Ana'' race_start = Inr sum_question
   \<and> submit_save ''Ana'' sum_question (Some OptB) race_start = Inr race_first
   \<and> submit_check ''Ana'' race_first = Inl AlreadyAnswered
   \<and> submit_save ''Ana'' sum_question (Some OptB) race_first = Inr race_second
   \<and> map r_name (answers_of 1 race_second) = [''Ana'', ''Ana'']
   \<and> score_of ''Ana'' race_first = 1
   \<and> score_of ''Ana'' race_second = 2
   \<and> map r_name (answers_of 1 (run [add_sum, StartSession 100, Join ''Ana'',
        SubmitAnswer ''Ana'' (Some OptB)])) = [''Ana'']
   \<and> submit_answer ''Ana'' (Some OptB) (run [add_sum, StartSession 100, Join ''Ana'',
        SubmitAnswer ''Ana'' (Some OptB), StopSession, StartSession 200])
       = Inr (run [add_sum, StartSession 100, Join ''Ana'',
        SubmitAnswer ''Ana'' (Some OptB), StopSession, StartSession 200,
        SubmitAnswer ''Ana'' (Some OptB)])
   \<and> score_of ''Ana'' (run [add_sum, StartSession 100, Join ''Ana'',
        SubmitAnswer ''Ana'' (Some OptB), StopSession, StartSession 200,
        SubmitAnswer ''Ana'' (Some OptB)]) = 2"
  by (simp add: race_defs eval_defs answers_of_def score_of_def)

section \<open>Starting and advancing\<close>

text \<open>
  Claim C3, as amended. \<^verbatim>\<open>start_quiz\<close> does nothing at all when the question list is
  empty. It does not look at \<^verbatim>\<open>quiz.started\<close> (the teacher page offers "Iniciar" only
  while the quiz is not started): whenever there is a question it sets \<open>started\<close>,
  makes 1 the current question, which after any sequence of commands is the id of the
  first question, hides the answer, sets \<open>started_at\<close> to now and stores an empty
  response list under question 1. The response lists of the other questions, the
  questions, the participants, the scores, the title and the seconds per question are
  left as they were. It reports no error.
\<close>

theorem start_quiz_effect:
  "(questions quiz = [] \<longrightarrow> start_quiz now quiz = quiz)
   \<and> (questions quiz \<noteq> [] \<longrightarrow>
        started (start_quiz now quiz) \<and> current_q (start_quiz now quiz) = 1
        \<and> \<not> reveal (start_quiz now quiz) \<and> started_at (start_quiz now quiz) = now
        \<and> dict_mem 1 (responses (start_quiz now quiz))
        \<and> answers_of 1 (start_quiz now quiz) = []
        \<and> (\<forall>k. k \<noteq> 1 \<longrightarrow> answers_of k (start_quiz now quiz) = answers_of k quiz)
        \<and> questions (start_quiz now quiz) = questions quiz
        \<and> participants (start_quiz now quiz) = participants quiz
        \<and> scores (start_quiz now quiz) = scores quiz
        \<and> title (start_quiz now quiz) = title quiz
        \<and> time_per_q (start_quiz now quiz) = time_per_q quiz)
   \<and> (questions (run cmds) \<noteq> [] \<longrightarrow> qid (hd (questions (run cmds))) = 1)"
proof (intro conjI impI)
  assume "questions quiz = []"
  then show "start_quiz now quiz = quiz" by (simp add: start_quiz_def)
next
  assume "questions (run cmds) \<noteq> []"
  then show "qid (hd (questions (run cmds))) = 1"
    by (rule ids_sequential_hd[OF ids_sequential_run])
next
  assume ne: "questions quiz \<noteq> []"
  then show "dict_mem 1 (responses (start_quiz now quiz))"
    by (simp add: start_quiz_def dict_mem_def dict_set_def update_conv')
qed (simp_all add: start_quiz_def answers_of_def dict_get_set)

theorem start_quiz_effect_witness:
  "questions new_Quiz = [] \<and> start_quiz 100 new_Quiz = new_Quiz
   \<and> questions (run [add_sum, add_capital, StartSession 100, NextQuestion 110]) \<noteq> []
   \<and> started (run [add_sum, add_capital, StartSession 100, NextQuestion 110])
   \<and> current_q (run [add_sum, add_capital, StartSession 100, NextQuestion 110]) = 2
   \<and> current_q (start_quiz 120 (run [add_sum, add_capital, StartSession 100, NextQuestion 110])) = 1
   \<and> started_at (start_quiz 120 (run [add_sum, add_capital, StartSession 100, NextQuestion 110])) = 120
   \<and> answers_of 1 (start_quiz 120 (run [add_sum, add_capital, StartSession 100, NextQuestion 110])) = []
   \<and> answers_of 2 (start_quiz 120 (run [add_sum, add_capital, StartSession 100, NextQuestion 110]))
       = answers_of 2 (run [add_sum, add_capital, StartSession 100, NextQuestion 110])
   \<and> qid (hd (questions (run [add_sum, add_capital, StartSession 100, NextQuestion 110]))) = 1"
  using start_quiz_effect [where quiz = new_Quiz and now = 100 and cmds = "[]"]
    start_quiz_effect [where quiz = "run [add_sum, add_capital, StartSession 100, NextQuestion 110]"
      and now = 120 and cmds = "[add_sum, add_capital, StartSession 100, NextQuestion 110]"]
  by (simp add: eval_defs)

text \<open>
  On a quiz that is already running at question 2, \<^verbatim>\<open>start_quiz\<close> is not refused: it
  changes the quiz.
\<close>

theorem start_quiz_counterexample:
  "started (run [add_sum, add_capital, StartSession 100, NextQuestion 110])
   \<and> start_quiz 120 (run [add_sum, add_capital, StartSession 100, NextQuestion 110])
       \<noteq> run [add_sum, add_capital, StartSession 100, NextQuestion 110]"
  by (simp add: eval_defs)

text \<open>
  Claim C4, as amended. \<^verbatim>\<open>next_q\<close> leaves the quiz exactly as it was when
  \<open>current_q\<close> is not below the number of questions, which after any sequence of
  commands is the case when \<open>current_q\<close> is the id of the last question. It does not
  look at \<^verbatim>\<open>quiz.started\<close> (the teacher page offers "Siguiente" only while the quiz is
  started). Otherwise it adds one to \<open>current_q\<close>, which after any sequence of commands
  is the id of the question that follows in the list, hides the answer, sets
  \<open>started_at\<close> to now, and appends an empty response list for the new question when
  the dictionary has no entry for it, leaving the dictionary alone when it has one.
  Nothing else changes, \<open>started\<close> included.
\<close>

theorem next_q_effect:
  "(\<not> current_q quiz < int (length (questions quiz)) \<longrightarrow> next_q now quiz = quiz)
   \<and> (current_q quiz < int (length (questions quiz)) \<longrightarrow>
        current_q (next_q now quiz) = current_q quiz + 1
        \<and> \<not> reveal (next_q now quiz) \<and> started_at (next_q now quiz) = now
        \<and> started (next_q now quiz) = started quiz
        \<and> (dict_mem (current_q quiz + 1) (responses quiz) \<longrightarrow>
              responses (next_q now quiz) = responses quiz)
        \<and> (\<not> dict_mem (current_q quiz + 1) (responses quiz) \<longrightarrow>
              responses (next_q now quiz) = responses quiz @ [(current_q quiz + 1, [])])
        \<and> questions (next_q now quiz) = questions quiz
        \<and> participants (next_q now quiz) = participants quiz
        \<and> scores (next_q now quiz) = scores quiz
        \<and> title (next_q now quiz) = title quiz
        \<and> time_per_q (next_q now quiz) = time_per_q quiz)
   \<and> (questions (run cmds) \<noteq> [] \<and> current_q (run cmds) = qid (last (questions (run cmds))) \<longrightarrow>
        next_q now (run cmds) = run cmds)
   \<and> (current_q (run cmds) < int (length (questions (run cmds))) \<longrightarrow>
        qid (questions (run cmds) ! nat (current_q (run cmds))) = current_q (run cmds) + 1)"
proof (intro conjI impI)
  assume "\<not> current_q quiz < int (length (questions quiz))"
  then show "next_q now quiz = quiz" by (simp add: next_q_def)
next
  assume "questions (run cmds) \<noteq> [] \<and> current_q (run cmds) = qid (last (questions (run cmds)))"
  with ids_sequential_last[OF ids_sequential_run, of cmds]
  have "current_q (run cmds) = int (length (questions (run cmds)))" by simp
  then show "next_q now (run cmds) = run cmds" by (simp add: next_q_def)
next
  assume lt: "current_q (run cmds) < int (length (questions (run cmds)))"
  from current_q_run[of cmds] have "0 \<le> current_q (run cmds)" by simp
  with lt have "nat (current_q (run cmds)) < length (questions (run cmds))" by simp
  from ids_sequential_nth[OF ids_sequential_run this] \<open>0 \<le> current_q (run cmds)\<close>
  show "qid (questions (run cmds) ! nat (current_q (run cmds))) = current_q (run cmds) + 1"
    by simp
qed (simp_all add: next_q_def dict_setdefault_def dict_mem_def split: option.splits)

theorem next_q_effect_witness:
  "\<not> current_q (run [add_sum, StartSession 100]) < int (length (questions (run [add_sum, StartSession 100])))
   \<and> questions (run [add_sum, StartSession 100]) \<noteq> []
   \<and> current_q (run [add_sum, StartSession 100]) = qid (last (questions (run [add_sum, StartSession 100])))
   \<and> next_q 110 (run [add_sum, StartSession 100]) = run [add_sum, StartSession 100]
   \<and> current_q (run [add_sum, add_capital, StartSession 100])
        < int (length (questions (run [add_sum, add_capital, StartSession 100])))
   \<and> \<not> dict_mem (current_q (run [add_sum, add_capital, StartSession 100]) + 1)
          (responses (run [add_sum, add_capital, StartSession 100]))
   \<and> current_q (next_q 110 (run [add_sum, add_capital, StartSession 100])) = 2
   \<and> responses (next_q 110 (run [add_sum, add_capital, StartSession 100])) = [(1, []), (2, [])]
   \<and> qid (questions (run [add_sum, add_capital, StartSession 100]) ! 1) = 2
   \<and> dict_mem (current_q (run [add_sum, add_capital, StartSession 100, NextQuestion 110, PrevQuestion 120]) + 1)
          (responses (run [add_sum, add_capital, StartSession 100, NextQuestion 110, PrevQuestion 120]))
   \<and> responses (next_q 130 (run [add_sum, add_capital, StartSession 100, NextQuestion 110, PrevQuestion 120]))
        = responses (run [add_sum, add_capital, StartSession 100, NextQuestion 110, PrevQuestion 120])"
  using next_q_effect [where quiz = "run [add_sum, StartSession 100]" and now = 110
      and cmds = "[add_sum, StartSession 100]"]
    next_q_effect [where quiz = "run [add_sum, add_capital, StartSession 100]" and now = 110
      and cmds = "[add_sum, add_capital, StartSession 100]"]
    next_q_effect [where quiz = "run [add_sum, add_capital, StartSession 100, NextQuestion 110, PrevQuestion 120]"
      and now = 130 and cmds = "[]"]
  by (simp add: eval_defs)

text \<open>
  On a quiz that was never started, \<^verbatim>\<open>next_q\<close> is not refused: it makes question 1
  current.
\<close>

theorem next_q_counterexample:
  "\<not> started (run [add_sum])
   \<and> next_q 110 (run [add_sum]) \<noteq> run [add_sum]
   \<and> current_q (next_q 110 (run [add_sum])) = 1"
  by (simp add: eval_defs)

section \<open>Scores and responses\<close>

text \<open>
  Every command keeps the scores equal to the numbers of correct responses, except
  \<^verbatim>\<open>start_quiz\<close> on a quiz whose question 1 already has a correct response: what
  \<^verbatim>\<open>start_quiz\<close> removes from the responses stays in the scores.
\<close>

lemma correct_count_alt:
  "correct_count nm quiz = int (sum_list (map (\<lambda>kv. n_correct nm (snd kv)) (responses quiz)))"
proof -
  have "length (filter P (concat (map snd d))) = sum_list (map (\<lambda>kv. length (filter P (snd kv))) d)"
    for P :: "Response \<Rightarrow> bool" and d :: "(int \<times> Response list) list"
    by (induction d) simp_all
  then show ?thesis by (simp add: correct_count_def n_correct_def)
qed

lemma sum_dict_set:
  "f dflt = 0 \<Longrightarrow>
   sum_list (map (\<lambda>kv. f (snd kv)) (dict_set d k v)) + f (dict_get d k dflt)
     = sum_list (map (\<lambda>kv. f (snd kv)) d) + f v"
  for f :: "'v \<Rightarrow> nat"
  by (induction d) (auto simp: dict_set_def dict_get_def)

lemma dict_get_setdefault_dflt:
  "dict_get (dict_setdefault d k dflt) k' dflt = dict_get d k' dflt"
  by (auto simp: dict_get_def dict_setdefault_def map_of_append split: option.splits if_splits)

lemma sum_dict_setdefault:
  "sum_list (map (\<lambda>kv. f (snd kv)) (dict_setdefault d k v))
     = sum_list (map (\<lambda>kv. f (snd kv)) d) + (if dict_mem k d then 0 else f v)"
  for f :: "'v \<Rightarrow> nat"
  by (auto simp: dict_setdefault_def dict_mem_def split: option.splits)

lemma n_correct_simps:
  "n_correct nm [] = 0"
  "n_correct nm (rs @ [r]) = n_correct nm rs + (if r_name r = nm \<and> r_correct r then 1 else 0)"
  by (simp_all add: n_correct_def)

lemma correct_count_submit:
  "correct_count nm (quiz\<lparr>responses :=
       dict_set (dict_setdefault (responses quiz) k []) k (answers_of k quiz @ [r]), scores := sc\<rparr>)
   = correct_count nm quiz + (if r_name r = nm \<and> r_correct r then 1 else 0)"
proof -
  let ?f = "n_correct nm"
  let ?d = "dict_setdefault (responses quiz) k []"
  have "sum_list (map (\<lambda>kv. ?f (snd kv)) (dict_set ?d k (answers_of k quiz @ [r]))) + ?f (dict_get ?d k [])
     = sum_list (map (\<lambda>kv. ?f (snd kv)) ?d) + ?f (answers_of k quiz @ [r])"
    by (rule sum_dict_set) (simp add: n_correct_simps)
  then have "sum_list (map (\<lambda>kv. ?f (snd kv)) (dict_set ?d k (answers_of k quiz @ [r])))
     = sum_list (map (\<lambda>kv. ?f (snd kv)) (responses quiz))
        + (if r_name r = nm \<and> r_correct r then 1 else 0)"
    by (simp add: sum_dict_setdefault dict_get_setdefault_same answers_of_def n_correct_simps)
  then show ?thesis
    by (simp add: correct_count_alt)
qed

lemma correct_count_start:
  "questions quiz \<noteq> [] \<Longrightarrow>
   correct_count nm (start_quiz now quiz) + int (n_correct nm (answers_of 1 quiz)) = correct_count nm quiz"
proof -
  assume ne: "questions quiz \<noteq> []"
  let ?f = "n_correct nm"
  have "sum_list (map (\<lambda>kv. ?f (snd kv)) (dict_set (responses quiz) 1 [])) + ?f (dict_get (responses quiz) 1 [])
     = sum_list (map (\<lambda>kv. ?f (snd kv)) (responses quiz)) + ?f []"
    by (rule sum_dict_set) (simp add: n_correct_simps)
  then have "int (sum_list (map (\<lambda>kv. ?f (snd kv)) (dict_set (responses quiz) 1 [])))
       + int (?f (dict_get (responses quiz) 1 []))
     = int (sum_list (map (\<lambda>kv. ?f (snd kv)) (responses quiz)))"
    by (simp add: n_correct_simps flip: of_nat_add)
  with ne show ?thesis
    by (simp add: correct_count_alt start_quiz_def answers_of_def)
qed

lemma scores_match_exec:
  assumes m: "scores_match quiz"
    and s: "(\<forall>now. c \<noteq> StartSession now) \<or> (\<forall>nm. n_correct nm (answers_of 1 quiz) = 0)"
  shows "scores_match (exec c quiz)"
proof (cases c)
  case (SubmitAnswer nm sel)
  show ?thesis
  proof (cases "submit_answer nm sel quiz")
    case (Inl e)
    with SubmitAnswer m show ?thesis by (simp add: applied_def)
  next
    case (Inr quiz')
    then obtain qrow key where q': "quiz' = quiz\<lparr>responses :=
               dict_set (dict_setdefault (responses quiz) (current_q quiz) []) (current_q quiz)
                 (answers_of (current_q quiz) quiz @
                   [\<lparr>r_name = nm, r_answer = split_paren_first (radio_label qrow key),
                     r_correct = (split_paren_first (radio_label qrow key) = correct qrow)\<rparr>]),
             scores := (if split_paren_first (radio_label qrow key) = correct qrow
                        then dict_set (scores quiz) nm (dict_get (scores quiz) nm 0 + 1)
                        else scores quiz)\<rparr>"
      by (rule submit_answer_cases)
    have "score_of n quiz' = correct_count n quiz'" for n
      using m unfolding q' correct_count_submit
      by (simp add: scores_match_def score_of_def dict_get_set)
    then have "scores_match quiz'" by (simp add: scores_match_def)
    with SubmitAnswer Inr m show ?thesis by (simp add: applied_def)
  qed
next
  case (StartSession now)
  with s have z: "n_correct nm (answers_of 1 quiz) = 0" for nm by simp
  show ?thesis
  proof (cases "questions quiz = []")
    case True
    with StartSession m show ?thesis by (simp add: start_quiz_def)
  next
    case False
    have "score_of n (start_quiz now quiz) = correct_count n (start_quiz now quiz)" for n
      using correct_count_start[OF False, of n now] z[of n] m False
      by (simp add: scores_match_def score_of_def start_quiz_def)
    with StartSession show ?thesis by (simp add: scores_match_def)
  qed
next
  case (NextQuestion now)
  with m show ?thesis
    by (simp add: scores_match_def score_of_def correct_count_alt next_q_def sum_dict_setdefault
        n_correct_simps)
next
  case (Join nm)
  with m show ?thesis
    by (auto simp: scores_match_def score_of_def correct_count_def join_quiz_def applied_def
        dict_get_setdefault_dflt)
next
  case ClearQuiz
  then show ?thesis
    by (simp add: scores_match_def score_of_def correct_count_def clear_quiz_def dict_get_def)
qed (use m in \<open>auto simp: scores_match_def score_of_def correct_count_def configure_def
       add_question_def prev_q_def toggle_reveal_def stop_quiz_def applied_def split: if_splits\<close>)

text \<open>
  Claim C2. The stored score and the number of correct responses come apart when a
  stopped quiz is started again: \<^verbatim>\<open>start_quiz\<close> replaces the response list of
  question 1 by an empty one (\<^verbatim>\<open>quiz.responses[1] = []\<close>, where \<^verbatim>\<open>next_q\<close> and the student
  page use \<^verbatim>\<open>setdefault\<close>) and keeps the scores. Ana has one correct response and the
  score 1 when the teacher stops; after the restart her score is still 1 with no
  response left, and she can answer question 1 again, for a score of 2 with one correct
  response.
\<close>

theorem restart_breaks_scores:
  "score_of ''Ana'' (run [add_sum, StartSession 100, Join ''Ana'',
       SubmitAnswer ''Ana'' (Some OptB), StopSession]) = 1
   \<and> correct_count ''Ana'' (run [add_sum, StartSession 100, Join ''Ana'',
       SubmitAnswer ''Ana'' (Some OptB), StopSession]) = 1
   \<and> score_of ''Ana'' (run [add_sum, StartSession 100, Join ''Ana'',
       SubmitAnswer ''Ana'' (Some OptB), StopSession, StartSession 200]) = 1
   \<and> correct_count ''Ana'' (run [add_sum, StartSession 100, Join ''Ana'',
       SubmitAnswer ''Ana'' (Some OptB), StopSession, StartSession 200]) = 0
   \<and> score_of ''Ana'' (run [add_sum, StartSession 100, Join ''Ana'',
       SubmitAnswer ''Ana'' (Some OptB), StopSession, StartSession 200,
       SubmitAnswer ''Ana'' (Some OptB)]) = 2
   \<and> correct_count ''Ana'' (run [add_sum, StartSession 100, Join ''Ana'',
       SubmitAnswer ''Ana'' (Some OptB), StopSession, StartSession 200,
       SubmitAnswer ''Ana'' (Some OptB)]) = 1"
  by (simp add: eval_defs score_of_def correct_count_def)

section \<open>The ranking\<close>

lemma key_le_iff: "((- snd x, fst x) \<le> (- snd y, fst y)) = ranks_before (x :: string \<times> int) y"
  by (auto simp: ranks_before_def less_eq_prod_def)

lemma sorted_wrt_sort_key_ranks:
  "sorted_wrt ranks_before (sort_key (\<lambda>kv. (- snd kv, fst kv)) (xs :: (string \<times> int) list))"
proof -
  let ?key = "\<lambda>kv :: string \<times> int. (- snd kv, fst kv)"
  have "sorted (map ?key (sort_key ?key xs))"
    by (rule sorted_sort_key)
  then have "sorted_wrt (\<lambda>x y. ?key x \<le> ?key y) (sort_key ?key xs)"
    by (simp only: sorted_map)
  then show ?thesis
    by (rule sorted_wrt_mono_rel[rotated]) (simp only: key_le_iff)
qed

lemma leaderboard_eq: "leaderboard quiz = sort_key (\<lambda>kv. (- snd kv, fst kv)) (scores quiz)"
  by (simp add: leaderboard_def)

lemma sorted_names_all_zero:
  assumes "sorted_wrt ranks_before xs" and "\<forall>kv \<in> set xs. snd kv = 0"
  shows "sorted (map fst xs)"
proof -
  have "sorted_wrt (\<lambda>x y. fst x \<le> fst y) xs"
    using assms(1)
  proof (rule sorted_wrt_mono_rel[rotated])
    fix x y assume "x \<in> set xs" "y \<in> set xs" "ranks_before x y"
    with assms(2) show "fst x \<le> fst y" by (auto simp: ranks_before_def)
  qed
  then show ?thesis by (simp add: sorted_map)
qed

text \<open>
  What the ranking does for every quiz: it holds exactly the entries of
  \<^verbatim>\<open>quiz.scores\<close>, ordered by score from high to low and, among equal scores, by name
  from small to large in the lexicographic order of the characters. It has no rows
  when there are no scores, in particular after any sequence of commands that leaves no
  participant; and when all stored scores are zero it lists every entry, ordered by
  name.
\<close>

lemma leaderboard_sorted:
  "mset (leaderboard quiz) = mset (scores quiz)
   \<and> sorted_wrt ranks_before (leaderboard quiz)
   \<and> (scores quiz = [] \<longrightarrow> leaderboard quiz = [])
   \<and> (participants (run cmds) = [] \<longrightarrow> leaderboard (run cmds) = [])
   \<and> ((\<forall>kv \<in> set (scores quiz). snd kv = 0) \<longrightarrow>
         map fst (leaderboard quiz) = sort (map fst (scores quiz))
         \<and> length (leaderboard quiz) = length (scores quiz))"
proof (intro conjI impI)
  show m: "mset (leaderboard quiz) = mset (scores quiz)"
    by (simp add: leaderboard_eq)
  show s: "sorted_wrt ranks_before (leaderboard quiz)"
    unfolding leaderboard_eq by (rule sorted_wrt_sort_key_ranks)
  show "leaderboard quiz = []" if "scores quiz = []"
    using that by (simp add: leaderboard_def)
  show "leaderboard (run cmds) = []" if "participants (run cmds) = []"
  proof -
    from scores_participants_run[of cmds] that have "scores (run cmds) = []" by simp
    then show ?thesis by (simp add: leaderboard_def)
  qed
  show "length (leaderboard quiz) = length (scores quiz)"
    by (simp add: leaderboard_eq)
  show "map fst (leaderboard quiz) = sort (map fst (scores quiz))"
    if z: "\<forall>kv \<in> set (scores quiz). snd kv = 0"
  proof -
    from m have "set (leaderboard quiz) = set (scores quiz)" by (rule mset_eq_setD)
    with z have "\<forall>kv \<in> set (leaderboard quiz). snd kv = 0" by simp
    with s have a: "sorted (map fst (leaderboard quiz))" by (rule sorted_names_all_zero)
    from m have b: "mset (map fst (leaderboard quiz)) = mset (map fst (scores quiz))"
      by (metis mset_map)
    from properties_for_sort [OF b a] show ?thesis by (rule sym)
  qed
qed

text \<open>
  As long as the teacher does not press "Borrar todas", every participant has an entry
  in \<^verbatim>\<open>quiz.scores\<close> (joining stores a zero), so the ranking lists exactly the
  participants.
\<close>

lemma participants_scored_exec:
  assumes "set (participants quiz) \<subseteq> fst ` set (scores quiz)" and "c \<noteq> ClearQuiz"
  shows "set (participants (exec c quiz)) \<subseteq> fst ` set (scores (exec c quiz))"
proof (cases c)
  case (SubmitAnswer nm sel)
  show ?thesis
  proof (cases "submit_answer nm sel quiz")
    case (Inl e)
    with SubmitAnswer assms show ?thesis by (simp add: applied_def)
  next
    case (Inr quiz')
    then obtain qrow key where q': "quiz' = quiz\<lparr>responses :=
               dict_set (dict_setdefault (responses quiz) (current_q quiz) []) (current_q quiz)
                 (answers_of (current_q quiz) quiz @
                   [\<lparr>r_name = nm, r_answer = split_paren_first (radio_label qrow key),
                     r_correct = (split_paren_first (radio_label qrow key) = correct qrow)\<rparr>]),
             scores := (if split_paren_first (radio_label qrow key) = correct qrow
                        then dict_set (scores quiz) nm (dict_get (scores quiz) nm 0 + 1)
                        else scores quiz)\<rparr>"
      by (rule submit_answer_cases)
    have "set (participants quiz') \<subseteq> fst ` set (scores quiz')"
      using assms(1) unfolding q' by (auto simp: keys_dict_set)
    with SubmitAnswer Inr assms show ?thesis by (simp add: applied_def)
  qed
next
  case (Join nm)
  with assms show ?thesis
    by (auto simp: join_quiz_def applied_def keys_dict_setdefault)
next
  case ClearQuiz
  with assms show ?thesis by simp
qed (use assms in \<open>auto simp: configure_def add_question_def start_quiz_def next_q_def
       prev_q_def toggle_reveal_def stop_quiz_def applied_def split: if_splits\<close>)

lemma participants_scored_run:
  "ClearQuiz \<notin> set cmds \<Longrightarrow> set (participants (run cmds)) \<subseteq> fst ` set (scores (run cmds))"
proof (induction cmds rule: rev_induct)
  case Nil
  then show ?case by (simp add: run_Nil new_Quiz_def)
next
  case (snoc c cmds)
  then show ?case
    using participants_scored_exec [of "run cmds" c] by (auto simp: run_snoc)
qed

lemma ranking_lists_participants:
  "ClearQuiz \<notin> set cmds \<Longrightarrow> set (map fst (leaderboard (run cmds))) = set (participants (run cmds))"
proof -
  assume a: "ClearQuiz \<notin> set cmds"
  have "set (leaderboard (run cmds)) = set (scores (run cmds))"
    by (simp add: leaderboard_def)
  then have "set (map fst (leaderboard (run cmds))) = fst ` set (scores (run cmds))" by simp
  with participants_scored_run[OF a] scores_participants_run[of cmds] show ?thesis by blast
qed
text \<open>
  Claim C6. The ranking is not a ranking of the participants in every state. "Borrar
  todas" replaces \<^verbatim>\<open>quiz.scores\<close> by an empty dictionary and keeps the participants,
  joining again does not store a new zero for a name that is already a participant, and
  the ranking reads \<^verbatim>\<open>quiz.scores\<close> only. After Ana and Bea have joined and the teacher
  has cleared, added a question and started, there are two participants, all scores
  are zero, and the ranking has no rows. When Ana then answers wrongly and Bea
  correctly, the ranking is Bea alone: Ana, a participant with score zero, is left out.
  Without the clearing both are ranked with zero.
\<close>

theorem leaderboard_omits_participants:
  "participants cleared_start = [''Ana'', ''Bea'']
   \<and> started cleared_start
   \<and> score_of ''Ana'' cleared_start = 0 \<and> score_of ''Bea'' cleared_start = 0
   \<and> leaderboard cleared_start = []
   \<and> participants (exec (SubmitAnswer ''Bea'' (Some OptB))
        (exec (SubmitAnswer ''Ana'' (Some OptA)) cleared_start)) = [''Ana'', ''Bea'']
   \<and> score_of ''Ana'' (exec (SubmitAnswer ''Bea'' (Some OptB))
        (exec (SubmitAnswer ''Ana'' (Some OptA)) cleared_start)) = 0
   \<and> leaderboard (exec (SubmitAnswer ''Bea'' (Some OptB))
        (exec (SubmitAnswer ''Ana'' (Some OptA)) cleared_start)) = [(''Bea'', 1)]
   \<and> leaderboard (run [Join ''Ana'', Join ''Bea'', add_sum, StartSession 100])
        = [(''Ana'', 0), (''Bea'', 0)]"
  by (simp add: race_defs eval_defs score_of_def leaderboard_def order_eval)


end
